theory Spec2Isabelle
  imports Complex_Main
begin

section \<open>Numbers, vectors and failures\<close>

text \<open>
  A C++ \<open>double\<close> is modelled by its value: a finite value is an exact real number
  (no rounding, no overflow, one zero), and the three kinds of non-finite value of
  IEEE 754 are kept, since the code tests for them (\<open>arma::is_finite\<close>) and a division
  by zero produces them. Arithmetic on non-finite values follows IEEE 754; a zero
  divisor counts as positive zero.
\<close>

datatype double = Fin real | PInf | NInf | NaN

fun is_finite :: "double \<Rightarrow> bool" where
  "is_finite (Fin a) = True"
| "is_finite _ = False"

fun dneg :: "double \<Rightarrow> double" where
  "dneg (Fin a) = Fin (- a)"
| "dneg PInf = NInf"
| "dneg NInf = PInf"
| "dneg NaN = NaN"

fun dadd :: "double \<Rightarrow> double \<Rightarrow> double" where
  "dadd NaN _ = NaN"
| "dadd _ NaN = NaN"
| "dadd PInf NInf = NaN"
| "dadd NInf PInf = NaN"
| "dadd PInf _ = PInf"
| "dadd _ PInf = PInf"
| "dadd NInf _ = NInf"
| "dadd _ NInf = NInf"
| "dadd (Fin a) (Fin b) = Fin (a + b)"

definition dsub :: "double \<Rightarrow> double \<Rightarrow> double" where
  "dsub a b = dadd a (dneg b)"

fun dmul :: "double \<Rightarrow> double \<Rightarrow> double" where
  "dmul NaN _ = NaN"
| "dmul _ NaN = NaN"
| "dmul (Fin a) (Fin b) = Fin (a * b)"
| "dmul (Fin a) PInf = (if a = 0 then NaN else if 0 < a then PInf else NInf)"
| "dmul (Fin a) NInf = (if a = 0 then NaN else if 0 < a then NInf else PInf)"
| "dmul PInf (Fin b) = (if b = 0 then NaN else if 0 < b then PInf else NInf)"
| "dmul NInf (Fin b) = (if b = 0 then NaN else if 0 < b then NInf else PInf)"
| "dmul PInf PInf = PInf"
| "dmul PInf NInf = NInf"
| "dmul NInf PInf = NInf"
| "dmul NInf NInf = PInf"

fun ddiv :: "double \<Rightarrow> double \<Rightarrow> double" where
  "ddiv NaN _ = NaN"
| "ddiv _ NaN = NaN"
| "ddiv (Fin a) (Fin b) =
     (if b = 0 then (if a = 0 then NaN else if 0 < a then PInf else NInf)
      else Fin (a / b))"
| "ddiv (Fin a) PInf = Fin 0"
| "ddiv (Fin a) NInf = Fin 0"
| "ddiv PInf (Fin b) = (if 0 \<le> b then PInf else NInf)"
| "ddiv NInf (Fin b) = (if 0 \<le> b then NInf else PInf)"
| "ddiv _ _ = NaN"

fun dabs :: "double \<Rightarrow> double" where
  "dabs (Fin a) = Fin \<bar>a\<bar>"
| "dabs PInf = PInf"
| "dabs NInf = PInf"
| "dabs NaN = NaN"

text \<open>\<open>std::pow(x, 2)\<close>.\<close>

fun dpow2 :: "double \<Rightarrow> double" where
  "dpow2 (Fin a) = Fin (a\<^sup>2)"
| "dpow2 PInf = PInf"
| "dpow2 NInf = PInf"
| "dpow2 NaN = NaN"

text \<open>Comparisons: every comparison with a NaN is false, also \<open>==\<close>.\<close>

fun dlt :: "double \<Rightarrow> double \<Rightarrow> bool" where
  "dlt NaN _ = False"
| "dlt _ NaN = False"
| "dlt (Fin a) (Fin b) = (a < b)"
| "dlt _ NInf = False"
| "dlt NInf _ = True"
| "dlt PInf _ = False"
| "dlt (Fin a) PInf = True"

fun dle :: "double \<Rightarrow> double \<Rightarrow> bool" where
  "dle NaN _ = False"
| "dle _ NaN = False"
| "dle (Fin a) (Fin b) = (a \<le> b)"
| "dle NInf _ = True"
| "dle _ PInf = True"
| "dle _ _ = False"


definition dge :: "double \<Rightarrow> double \<Rightarrow> bool" where
  "dge a b = dle b a"

fun deq :: "double \<Rightarrow> double \<Rightarrow> bool" where
  "deq NaN _ = False"
| "deq _ NaN = False"
| "deq a b = (a = b)"

text \<open>\<open>std::max(a, b)\<close> is \<open>(a < b) ? b : a\<close> and \<open>std::min(a, b)\<close> is \<open>(b < a) ? b : a\<close>.\<close>

definition dmax :: "double \<Rightarrow> double \<Rightarrow> double" where
  "dmax a b = (if dlt a b then b else a)"

definition dmin :: "double \<Rightarrow> double \<Rightarrow> double" where
  "dmin a b = (if dlt b a then b else a)"

text \<open>\<open>arma::sum\<close> of a vector.\<close>

definition dsum :: "double list \<Rightarrow> double" where
  "dsum v = foldl dadd (Fin 0) v"

text \<open>
  A raised exception is a value: \<open>Failure\<close> carries the message of a call of
  \<open>error(...)\<close> or \<open>Rcpp::stop(...)\<close>; \<open>OutOfBounds\<close> stands for an index outside a
  vector or matrix, and for a matrix product whose dimensions do not agree.
\<close>

datatype error = Failure string | OutOfBounds

text \<open>
  An \<open>arma::rowvec\<close> is the list of its elements, an \<open>arma::mat\<close> the list of its rows.
  \<open>v.at(i)\<close> of Armadillo checks no bounds, so an index out of range has no defined
  result in the source; the model gives it the same failure as the checked accesses
  \<open>v.col(i)\<close> and \<open>v.row(i)\<close>, and no theorem below relies on that case.
\<close>

definition rowvec_at :: "double list \<Rightarrow> nat \<Rightarrow> error + double" where
  "rowvec_at v i = (if i < length v then Inr (v ! i) else Inl OutOfBounds)"

definition rowvec_col :: "double list \<Rightarrow> nat \<Rightarrow> error + double" where
  "rowvec_col v i = (if i < length v then Inr (v ! i) else Inl OutOfBounds)"

text \<open>
  \<open>Hessian * arma::trans(stepDirection)\<close>: the product of a matrix with a column
  vector, which fails unless every row of the matrix is as long as the vector.
\<close>

definition mat_times_trans :: "double list list \<Rightarrow> double list \<Rightarrow> error + double list" where
  "mat_times_trans H d =
     (if list_all (\<lambda>row. length row = length d) H
      then Inr (map (\<lambda>row. dsum (map2 dmul row d)) H)
      else Inl OutOfBounds)"

text \<open>\<open>Hessian.row(i).col(j)\<close>.\<close>

definition mat_row_col :: "double list list \<Rightarrow> nat \<Rightarrow> nat \<Rightarrow> error + double" where
  "mat_row_col H i j =
     (if i < length H \<and> j < length (H ! i) then Inr (H ! i ! j) else Inl OutOfBounds)"

text \<open>
  A counting loop \<open>for (p = 0; p < n; p++) body\<close> whose body may raise: the loop
  state is threaded through the indices in order and the first failure ends the loop.
\<close>

fun for_loop :: "(nat \<Rightarrow> 's \<Rightarrow> error + 's) \<Rightarrow> nat list \<Rightarrow> 's \<Rightarrow> error + 's" where
  "for_loop body [] s = Inr s"
| "for_loop body (p # ps) s =
     (case body p s of Inl e \<Rightarrow> Inl e | Inr s' \<Rightarrow> for_loop body ps s')"

section \<open>simplified_interfaces_helper.h\<close>

subsection \<open>resizeVector\<close>

text \<open>\<open>std::vector::resize\<close> (new slots hold the given default) and \<open>std::fill\<close>.\<close>

definition resize :: "nat \<Rightarrow> 'a \<Rightarrow> 'a list \<Rightarrow> 'a list" where
  "resize n dflt v = take n v @ replicate (n - length v) dflt"

definition fill :: "'a \<Rightarrow> 'a list \<Rightarrow> 'a list" where
  "fill a v = map (\<lambda>_. a) v"

text \<open>
  The template overload for \<open>std::vector\<close> of \<open>vecobj\<close>; \<open>vecobj_init\<close> is the
  value-initialised \<open>vecobj\<close> that \<open>resize\<close> writes into new slots.
\<close>

definition resizeVector :: "'a \<Rightarrow> nat \<Rightarrow> 'a list \<Rightarrow> 'a list" where
  "resizeVector vecobj_init numberParameters userVector =
     (if length userVector = 1
      then (let userObj = userVector ! 0;
                userVector = resize numberParameters vecobj_init userVector
            in fill userObj userVector)
      else userVector)"

text \<open>The overload for \<open>arma::rowvec\<close>.\<close>

definition resizeVector_rowvec :: "nat \<Rightarrow> double list \<Rightarrow> double list" where
  "resizeVector_rowvec numberParameters userVector =
     (if length userVector = 1
      then (let userObj = userVector ! 0;
                userVector = resize numberParameters (Fin 0) userVector
            in fill userObj userVector)
      else userVector)"

subsection \<open>stringPenaltyToPenaltyType\<close>

text \<open>
  Modelled from the spec: the enumeration \<open>penaltyType\<close> is declared in a header that
  is not among the sources; its members are the ones \<open>stringPenaltyToPenaltyType\<close>
  assigns and \<open>printPenaltyDetails\<close> switches over.
\<close>

datatype penaltyType = none | cappedL1 | lasso | lsp | mcp | scad

definition stringPenaltyToPenaltyType_body ::
  "string list \<Rightarrow> nat \<Rightarrow> penaltyType list \<Rightarrow> error + penaltyType list" where
  "stringPenaltyToPenaltyType_body penalty i penalties =
     (if penalty ! i = ''none'' then Inr (penalties[i := none])
      else if penalty ! i = ''cappedL1'' then Inr (penalties[i := cappedL1])
      else if penalty ! i = ''lasso'' then Inr (penalties[i := lasso])
      else if penalty ! i = ''lsp'' then Inr (penalties[i := lsp])
      else if penalty ! i = ''mcp'' then Inr (penalties[i := mcp])
      else if penalty ! i = ''scad'' then Inr (penalties[i := scad])
      else Inl (Failure (''Unknown penalty type: '' @ penalty ! i @
                  ''. Supported are: none, cappedL1, lasso, lsp, mcp, or scad.'')))"

definition stringPenaltyToPenaltyType :: "string list \<Rightarrow> error + penaltyType list" where
  "stringPenaltyToPenaltyType penalty =
     for_loop (stringPenaltyToPenaltyType_body penalty) [0..<length penalty]
       (replicate (length penalty) none)"

text \<open>The names the translation accepts, and the kind each one stands for.\<close>

definition supported_names :: "string list" where
  "supported_names = [''none'', ''cappedL1'', ''lasso'', ''lsp'', ''mcp'', ''scad'']"

definition kind_of_name :: "string \<Rightarrow> penaltyType" where
  "kind_of_name s =
     (if s = ''none'' then none
      else if s = ''cappedL1'' then cappedL1
      else if s = ''lasso'' then lasso
      else if s = ''lsp'' then lsp
      else if s = ''mcp'' then mcp
      else scad)"

text \<open>The valid kinds as the specification lists them.\<close>

definition spec_valid_kinds :: "string list" where
  "spec_valid_kinds =
     [''none'', ''lasso'', ''ridge'', ''elastic_net'', ''capped_l1'', ''lsp'', ''mcp'', ''scad'']"

definition unknown_penalty :: "string \<Rightarrow> error" where
  "unknown_penalty s =
     Failure (''Unknown penalty type: '' @ s @
       ''. Supported are: none, cappedL1, lasso, lsp, mcp, or scad.'')"

section \<open>lesspar/glmnet_mcp.h\<close>

text \<open>The fields of \<open>tuningParametersMcpGlmnet\<close>: \<open>weights\<close>, \<open>lambda\<close> and \<open>theta\<close>.\<close>

record tuningParametersMcpGlmnet =
  mcp_weights :: "double list"
  mcp_lambda :: double
  mcp_theta :: double

subsection \<open>penaltyMcpGlmnet::getValue\<close>



subsection \<open>penaltyMcpGlmnet::subproblemValue\<close>

definition subproblemValue ::
  "double \<Rightarrow> double \<Rightarrow> double \<Rightarrow> double \<Rightarrow> double \<Rightarrow> double \<Rightarrow> double \<Rightarrow> double \<Rightarrow> double" where
  "subproblemValue parameterValue_j z g_j d_j hessianXdirection_j H_jj lambda theta =
     (let base = dadd (dadd (dmul z g_j) (dmul z hessianXdirection_j))
                      (dmul (dmul (Fin (1 / 2)) (dmul z z)) H_jj);
          probe = dabs (dadd (dadd parameterValue_j d_j) z)
      in if dle probe (dmul theta lambda)
         then dsub (dadd base (dmul lambda probe))
                   (ddiv (dmul probe probe) (dmul (Fin 2) theta))
         else dadd base (ddiv (dmul (dmul theta lambda) lambda) (Fin 2)))"

subsection \<open>penaltyMcpGlmnet::getZ\<close>

text \<open>
  Reading the scalars of parameter \<open>whichPar\<close>: its weight, its value, its direction,
  the entry of \<open>Hessian * trans(stepDirection)\<close>, the diagonal entry of the Hessian and
  the gradient entry.
\<close>

definition getZ_read ::
  "nat \<Rightarrow> double list \<Rightarrow> double list \<Rightarrow> double list \<Rightarrow> double list list \<Rightarrow>
   tuningParametersMcpGlmnet \<Rightarrow>
   error + (double \<times> double \<times> double \<times> double \<times> double \<times> double)" where
  "getZ_read whichPar parameters_kMinus1 gradient stepDirection Hessian tuningParameters =
     (case rowvec_at (mcp_weights tuningParameters) whichPar of
        Inl e \<Rightarrow> Inl e
      | Inr weight_j \<Rightarrow>
     (case rowvec_col parameters_kMinus1 whichPar of
        Inl e \<Rightarrow> Inl e
      | Inr parameterValue_j \<Rightarrow>
     (case rowvec_col stepDirection whichPar of
        Inl e \<Rightarrow> Inl e
      | Inr d_j \<Rightarrow>
     (case mat_times_trans Hessian stepDirection of
        Inl e \<Rightarrow> Inl e
      | Inr hessianXdirection \<Rightarrow>
     (case rowvec_col hessianXdirection whichPar of
        Inl e \<Rightarrow> Inl e
      | Inr hessianXdirection_j \<Rightarrow>
     (case mat_row_col Hessian whichPar whichPar of
        Inl e \<Rightarrow> Inl e
      | Inr H_jj \<Rightarrow>
     (case rowvec_col gradient whichPar of
        Inl e \<Rightarrow> Inl e
      | Inr g_j \<Rightarrow>
          Inr (weight_j, parameterValue_j, d_j, hessianXdirection_j, H_jj, g_j))))))))"

text \<open>
  The check of \<open>H_jj - 1 / theta\<close>: the warnings emitted and the value of \<open>H_jj\<close>
  afterwards.
\<close>

definition not_positive_definite_warning :: string where
  "not_positive_definite_warning =
     ''One of the subproblems is not positive definite. Using a small hack... '' @
     ''This may work or may fail. We recommend using method = 'ista' for mcp.''"

definition getZ_posdef :: "double \<Rightarrow> double \<Rightarrow> string list \<times> double" where
  "getZ_posdef H_jj theta =
     (if dle (dsub H_jj (ddiv (Fin 1) theta)) (Fin 0)
      then ([not_positive_definite_warning],
            dadd H_jj (dadd (ddiv (Fin 1) theta) (Fin (1 / 1000))))
      else ([], H_jj))"

text \<open>
  The three candidate steps. \<open>z[0]\<close>: the root on the branch where
  \<open>parameterValue_j + d_j + z\<close> is positive and at most \<open>lambda * theta\<close>.
\<close>

definition getZ_z0 ::
  "double \<Rightarrow> double \<Rightarrow> double \<Rightarrow> double \<Rightarrow> double \<Rightarrow> double \<Rightarrow> double \<Rightarrow> double" where
  "getZ_z0 parameterValue_j d_j g_j hessianXdirection_j H_jj lambda theta =
     (let z_1 = dmax (dneg (dadd parameterValue_j d_j))
                  (ddiv (dadd (dsub (dsub (dadd (dmul (dneg hessianXdirection_j) theta) d_j)
                                          (dmul g_j theta))
                                    (dmul theta lambda))
                              parameterValue_j)
                        (dsub (dmul H_jj theta) (Fin 1)))
      in if dle (dadd (dadd parameterValue_j d_j) z_1) (dmul lambda theta)
         then z_1
         else dsub (dmul lambda theta) (dadd parameterValue_j d_j))"

text \<open>
  \<open>z[1]\<close>: the root on the branch where \<open>parameterValue_j + d_j + z\<close> is negative and
  at least \<open>-lambda * theta\<close>.
\<close>

definition getZ_z1 ::
  "double \<Rightarrow> double \<Rightarrow> double \<Rightarrow> double \<Rightarrow> double \<Rightarrow> double \<Rightarrow> double \<Rightarrow> double" where
  "getZ_z1 parameterValue_j d_j g_j hessianXdirection_j H_jj lambda theta =
     (let z_2 = dmin (dneg (dadd parameterValue_j d_j))
                  (ddiv (dadd (dadd (dsub (dadd (dmul (dneg hessianXdirection_j) theta) d_j)
                                          (dmul g_j theta))
                                    (dmul theta lambda))
                              parameterValue_j)
                        (dsub (dmul H_jj theta) (Fin 1)))
      in if dge (dadd (dadd parameterValue_j d_j) z_2) (dmul (dneg lambda) theta)
         then z_2
         else dsub (dmul (dneg lambda) theta) (dadd parameterValue_j d_j))"

text \<open>\<open>z[2]\<close>: the root where \<open>parameterValue_j + d_j + z\<close> is beyond \<open>lambda * theta\<close>.\<close>

definition getZ_z2 ::
  "double \<Rightarrow> double \<Rightarrow> double \<Rightarrow> double \<Rightarrow> double \<Rightarrow> double \<Rightarrow> double \<Rightarrow> double" where
  "getZ_z2 parameterValue_j d_j g_j hessianXdirection_j H_jj lambda theta =
     (let z_3 = ddiv (dneg (dadd g_j hessianXdirection_j)) H_jj
      in if dlt (dadd (dadd parameterValue_j d_j) z_3) (Fin 0)
         then (if dle (dadd (dadd parameterValue_j d_j) z_3) (dmul (dneg lambda) theta)
               then z_3
               else dsub (dmul (dneg lambda) theta) (dadd parameterValue_j d_j))
         else (if dge (dadd (dadd parameterValue_j d_j) z_3) (dmul lambda theta)
               then z_3
               else dsub (dmul lambda theta) (dadd parameterValue_j d_j)))"

definition getZ_candidates ::
  "double \<Rightarrow> double \<Rightarrow> double \<Rightarrow> double \<Rightarrow> double \<Rightarrow> double \<Rightarrow> double \<Rightarrow> double list" where
  "getZ_candidates parameterValue_j d_j g_j hessianXdirection_j H_jj lambda theta =
     [getZ_z0 parameterValue_j d_j g_j hessianXdirection_j H_jj lambda theta,
      getZ_z1 parameterValue_j d_j g_j hessianXdirection_j H_jj lambda theta,
      getZ_z2 parameterValue_j d_j g_j hessianXdirection_j H_jj lambda theta]"

text \<open>
  The loop over the three candidates. Its state is \<open>whichmin\<close> (\<open>-1\<close> at the start)
  and the array \<open>fitValue\<close>, whose entries are read only after they are written.
\<close>

definition getZ_loop_body ::
  "double list \<Rightarrow> (double \<Rightarrow> double) \<Rightarrow> int \<times> double list \<Rightarrow> nat \<Rightarrow> int \<times> double list" where
  "getZ_loop_body z fit state i =
     (let whichmin = fst state; fitValue = snd state in
      if \<not> is_finite (z ! i) then (whichmin, fitValue)
      else
        (let fitValue = fitValue[i := fit (z ! i)] in
         if whichmin = - 1 then (int i, fitValue)
         else if dlt (fitValue ! i) (fitValue ! nat whichmin) then (int i, fitValue)
         else (whichmin, fitValue)))"

definition getZ_select :: "double list \<Rightarrow> (double \<Rightarrow> double) \<Rightarrow> error + double" where
  "getZ_select z fit =
     (let whichmin = fst (foldl (getZ_loop_body z fit) (- 1, replicate 3 NaN) [0..<3]) in
      if whichmin = - 1 then Inl (Failure ''Found no minimum'')
      else Inr (z ! nat whichmin))"

text \<open>
  The part of the function after the check of \<open>H_jj\<close>: the candidates, their fit
  values and the choice among them.
\<close>

definition getZ_solve ::
  "double \<Rightarrow> double \<Rightarrow> double \<Rightarrow> double \<Rightarrow> double \<Rightarrow> double \<Rightarrow> double \<Rightarrow> error + double" where
  "getZ_solve parameterValue_j d_j g_j hessianXdirection_j H_jj lambda theta =
     getZ_select
       (getZ_candidates parameterValue_j d_j g_j hessianXdirection_j H_jj lambda theta)
       (\<lambda>z_i. subproblemValue parameterValue_j z_i g_j d_j hessianXdirection_j
                H_jj lambda theta)"

text \<open>The function on the scalars it has read; it returns the warnings and the result.\<close>

definition getZ_step ::
  "double \<Rightarrow> double \<Rightarrow> double \<Rightarrow> double \<Rightarrow> double \<Rightarrow> double \<Rightarrow> double \<Rightarrow> double \<Rightarrow>
   string list \<times> (error + double)" where
  "getZ_step weight_j lambda_all theta parameterValue_j d_j hessianXdirection_j H_jj g_j =
     (let lambda = dmul weight_j lambda_all in
      if deq weight_j (Fin 0)
      then ([], Inr (ddiv (dneg (dadd g_j hessianXdirection_j)) H_jj))
      else
        (let warned = getZ_posdef H_jj theta;
             H_jj = snd warned
         in (fst warned,
             getZ_solve parameterValue_j d_j g_j hessianXdirection_j H_jj lambda theta)))"

definition getZ ::
  "nat \<Rightarrow> double list \<Rightarrow> double list \<Rightarrow> double list \<Rightarrow> double list list \<Rightarrow>
   tuningParametersMcpGlmnet \<Rightarrow> string list \<times> (error + double)" where
  "getZ whichPar parameters_kMinus1 gradient stepDirection Hessian tuningParameters =
     (case getZ_read whichPar parameters_kMinus1 gradient stepDirection Hessian
             tuningParameters of
        Inl e \<Rightarrow> ([], Inl e)
      | Inr (weight_j, parameterValue_j, d_j, hessianXdirection_j, H_jj, g_j) \<Rightarrow>
          getZ_step weight_j (mcp_lambda tuningParameters) (mcp_theta tuningParameters)
            parameterValue_j d_j hessianXdirection_j H_jj g_j)"

subsection \<open>penaltyMcpGlmnet::getSubgradients\<close>

definition getSubgradients ::
  "double list \<Rightarrow> double list \<Rightarrow> tuningParametersMcpGlmnet \<Rightarrow> error + double list" where
  "getSubgradients parameterValues gradients tuningParameters =
     Inl (Failure (''Subgradients not yet implemented for mcp penalty. '' @
                   ''Use different convergence criterion.''))"

section \<open>ista_ridge.h\<close>

text \<open>
  Modelled from the spec: \<open>tuningParametersEnet\<close> is declared in \<open>enet.h\<close>, which is
  not among the sources; its fields are the ones \<open>penaltyRidge\<close> reads: the scalars
  \<open>alpha\<close> and \<open>lambda\<close> and the vector \<open>weights\<close>.
\<close>

record tuningParametersEnet =
  enet_alpha :: double
  enet_lambda :: double
  enet_weights :: "double list"

definition penaltyRidge_getValue_body ::
  "double list \<Rightarrow> tuningParametersEnet \<Rightarrow> nat \<Rightarrow> double \<Rightarrow> error + double" where
  "penaltyRidge_getValue_body parameterValues tuningParameters p penalty =
     (case rowvec_at (enet_weights tuningParameters) p of
        Inl e \<Rightarrow> Inl e
      | Inr weight_p \<Rightarrow>
          (let lambda_i = dmul (dmul (dsub (Fin 1) (enet_alpha tuningParameters))
                                     (enet_lambda tuningParameters))
                               weight_p in
           case rowvec_at parameterValues p of
             Inl e \<Rightarrow> Inl e
           | Inr value_p \<Rightarrow> Inr (dadd penalty (dmul lambda_i (dpow2 value_p)))))"

definition penaltyRidge_getValue ::
  "double list \<Rightarrow> string list \<Rightarrow> tuningParametersEnet \<Rightarrow> error + double" where
  "penaltyRidge_getValue parameterValues parameterLabels tuningParameters =
     (if deq (enet_alpha tuningParameters) (Fin 1) then Inr (Fin 0)
      else for_loop (penaltyRidge_getValue_body parameterValues tuningParameters)
             [0..<length parameterValues] (Fin 0))"

definition penaltyRidge_getGradients_body ::
  "double list \<Rightarrow> tuningParametersEnet \<Rightarrow> nat \<Rightarrow> double list \<Rightarrow> error + double list" where
  "penaltyRidge_getGradients_body parameterValues tuningParameters p gradients =
     (case rowvec_at (enet_weights tuningParameters) p of
        Inl e \<Rightarrow> Inl e
      | Inr weight_p \<Rightarrow>
          (let lambda_i = dmul (dmul (dsub (Fin 1) (enet_alpha tuningParameters))
                                     (enet_lambda tuningParameters))
                               weight_p in
           case rowvec_at parameterValues p of
             Inl e \<Rightarrow> Inl e
           | Inr value_p \<Rightarrow>
               Inr (gradients[p := dmul (dmul lambda_i (Fin 2)) value_p])))"

definition penaltyRidge_getGradients ::
  "double list \<Rightarrow> string list \<Rightarrow> tuningParametersEnet \<Rightarrow> error + double list" where
  "penaltyRidge_getGradients parameterValues parameterLabels tuningParameters =
     (let gradients = replicate (length parameterValues) (Fin 0) in
      if deq (enet_alpha tuningParameters) (Fin 1) then Inr gradients
      else for_loop (penaltyRidge_getGradients_body parameterValues tuningParameters)
             [0..<length parameterValues] gradients)"

section \<open>lesstimate/glmnet_ridge.h\<close>

text \<open>
  Modelled from the spec: \<open>tuningParametersEnetGlmnet\<close> is declared in \<open>enet.h\<close>, which
  is not among the sources; its fields are the ones \<open>penaltyRidgeGlmnet\<close> reads: the
  vectors \<open>alpha\<close>, \<open>lambda\<close> and \<open>weights\<close>, one entry per parameter.
\<close>

record tuningParametersEnetGlmnet =
  glmnet_alpha :: "double list"
  glmnet_lambda :: "double list"
  glmnet_weights :: "double list"

definition penaltyRidgeGlmnet_lambda_i ::
  "tuningParametersEnetGlmnet \<Rightarrow> nat \<Rightarrow> error + double" where
  "penaltyRidgeGlmnet_lambda_i tuningParameters p =
     (case rowvec_at (glmnet_alpha tuningParameters) p of
        Inl e \<Rightarrow> Inl e
      | Inr alpha_p \<Rightarrow>
     (case rowvec_at (glmnet_lambda tuningParameters) p of
        Inl e \<Rightarrow> Inl e
      | Inr lambda_p \<Rightarrow>
     (case rowvec_at (glmnet_weights tuningParameters) p of
        Inl e \<Rightarrow> Inl e
      | Inr weight_p \<Rightarrow> Inr (dmul (dmul (dsub (Fin 1) alpha_p) lambda_p) weight_p))))"

definition penaltyRidgeGlmnet_getValue_body ::
  "double list \<Rightarrow> tuningParametersEnetGlmnet \<Rightarrow> nat \<Rightarrow> double \<Rightarrow> error + double" where
  "penaltyRidgeGlmnet_getValue_body parameterValues tuningParameters p penalty =
     (case penaltyRidgeGlmnet_lambda_i tuningParameters p of
        Inl e \<Rightarrow> Inl e
      | Inr lambda_i \<Rightarrow>
          (case rowvec_at parameterValues p of
             Inl e \<Rightarrow> Inl e
           | Inr value_p \<Rightarrow> Inr (dadd penalty (dmul lambda_i (dpow2 value_p)))))"

definition penaltyRidgeGlmnet_getValue ::
  "double list \<Rightarrow> string list \<Rightarrow> tuningParametersEnetGlmnet \<Rightarrow> error + double" where
  "penaltyRidgeGlmnet_getValue parameterValues parameterLabels tuningParameters =
     (if deq (dsum (glmnet_alpha tuningParameters))
             (Fin (real (length (glmnet_alpha tuningParameters))))
      then Inr (Fin 0)
      else for_loop (penaltyRidgeGlmnet_getValue_body parameterValues tuningParameters)
             [0..<length parameterValues] (Fin 0))"

definition penaltyRidgeGlmnet_getGradients_body ::
  "double list \<Rightarrow> tuningParametersEnetGlmnet \<Rightarrow> nat \<Rightarrow> double list \<Rightarrow> error + double list" where
  "penaltyRidgeGlmnet_getGradients_body parameterValues tuningParameters p gradients =
     (case penaltyRidgeGlmnet_lambda_i tuningParameters p of
        Inl e \<Rightarrow> Inl e
      | Inr lambda_i \<Rightarrow>
          (case rowvec_at parameterValues p of
             Inl e \<Rightarrow> Inl e
           | Inr value_p \<Rightarrow>
               Inr (gradients[p := dmul (dmul lambda_i (Fin 2)) value_p])))"

definition penaltyRidgeGlmnet_getGradients ::
  "double list \<Rightarrow> string list \<Rightarrow> tuningParametersEnetGlmnet \<Rightarrow> error + double list" where
  "penaltyRidgeGlmnet_getGradients parameterValues parameterLabels tuningParameters =
     (let gradients = replicate (length parameterValues) (Fin 0) in
      if deq (dsum (glmnet_alpha tuningParameters))
             (Fin (real (length (glmnet_alpha tuningParameters))))
      then Inr gradients
      else for_loop (penaltyRidgeGlmnet_getGradients_body parameterValues tuningParameters)
             [0..<length parameterValues] gradients)"

section \<open>Reference formulas\<close>













text \<open>
  The inputs of \<open>getZ\<close> fit together: the index is within every vector and within
  the Hessian, and each row of the Hessian is as long as the step direction.
\<close>

definition getZ_inputs_ok ::
  "nat \<Rightarrow> double list \<Rightarrow> double list \<Rightarrow> double list \<Rightarrow> double list list \<Rightarrow>
   tuningParametersMcpGlmnet \<Rightarrow> bool" where
  "getZ_inputs_ok whichPar parameters_kMinus1 gradient stepDirection Hessian tuningParameters =
     (whichPar < length (mcp_weights tuningParameters) \<and>
      whichPar < length parameters_kMinus1 \<and>
      whichPar < length gradient \<and>
      whichPar < length stepDirection \<and>
      whichPar < length Hessian \<and>
      list_all (\<lambda>row. length row = length stepDirection) Hessian)"

text \<open>The candidates that a call of \<open>getZ\<close> forms from its inputs.\<close>

definition getZ_candidates_of ::
  "nat \<Rightarrow> double list \<Rightarrow> double list \<Rightarrow> double list \<Rightarrow> double list list \<Rightarrow>
   tuningParametersMcpGlmnet \<Rightarrow> double list" where
  "getZ_candidates_of whichPar parameters_kMinus1 gradient stepDirection Hessian tuningParameters =
     getZ_candidates (parameters_kMinus1 ! whichPar) (stepDirection ! whichPar)
       (gradient ! whichPar) (dsum (map2 dmul (Hessian ! whichPar) stepDirection))
       (snd (getZ_posdef (Hessian ! whichPar ! whichPar) (mcp_theta tuningParameters)))
       (dmul (mcp_weights tuningParameters ! whichPar) (mcp_lambda tuningParameters))
       (mcp_theta tuningParameters)"

section \<open>Loops and sums\<close>


lemma for_loop_cong_on:
  assumes "\<And>p s. p \<in> set ps \<Longrightarrow> body p s = body' p s"
  shows "for_loop body ps s = for_loop body' ps s"
  using assms by (induction ps arbitrary: s) (simp_all split: sum.splits)






lemma foldl_dadd_replicate: "foldl dadd (Fin a) (replicate n (Fin b)) = Fin (a + real n * b)"
  by (induction n arbitrary: a) (simp_all add: algebra_simps)

lemma dsum_replicate: "dsum (replicate n (Fin b)) = Fin (real n * b)"
  by (simp add: dsum_def foldl_dadd_replicate)




lemma upt_3: "[0..<3] = [0, 1, 2]"
  by (simp add: upt_rec)

section \<open>resizeVector\<close>

lemma resize_fill: "fill a (resize n dflt v) = replicate n a"
  by (simp add: fill_def resize_def map_replicate_const flip: replicate_add)

text \<open>
  Claim C10. For every target length \<open>n\<close> and every vector \<open>v\<close>, \<open>resizeVector\<close> returns
  \<open>n\<close> copies of the single element of \<open>v\<close> when \<open>v\<close> has length 1, and returns \<open>v\<close>
  itself in every other case, also when the length of \<open>v\<close> is neither 1 nor \<open>n\<close>: no
  failure is possible. This holds for both overloads, whatever value \<open>resize\<close> writes
  into new slots.
\<close>

theorem resizeVector_single_or_unchanged:
  "resizeVector vecobj_init n v = (if length v = 1 then replicate n (v ! 0) else v) \<and>
   resizeVector_rowvec n w = (if length w = 1 then replicate n (w ! 0) else w)"
  by (simp add: resizeVector_def resizeVector_rowvec_def resize_fill Let_def)

section \<open>getSubgradients\<close>

text \<open>
  Claim C9. Every call of \<open>penaltyMcpGlmnet::getSubgradients\<close> fails with an error,
  whatever the parameter values, the gradients and the tuning parameters are.
\<close>

theorem getSubgradients_always_fails:
  "isl (getSubgradients parameterValues gradients tuningParameters)"
  by (simp add: getSubgradients_def)

section \<open>stringPenaltyToPenaltyType\<close>

lemma stringPenaltyToPenaltyType_body_supported:
  "penalty ! i \<in> set supported_names \<Longrightarrow>
   stringPenaltyToPenaltyType_body penalty i penalties =
     Inr (penalties[i := kind_of_name (penalty ! i)])"
  by (auto simp: supported_names_def stringPenaltyToPenaltyType_body_def kind_of_name_def)

lemma stringPenaltyToPenaltyType_body_unsupported:
  "penalty ! i \<notin> set supported_names \<Longrightarrow>
   stringPenaltyToPenaltyType_body penalty i penalties = Inl (unknown_penalty (penalty ! i))"
  by (auto simp: supported_names_def stringPenaltyToPenaltyType_body_def unknown_penalty_def)

text \<open>
  The loop from index \<open>k\<close> on: it fails at the first name that is not supported, and
  otherwise fills the slots from \<open>k\<close> on.
\<close>

lemma stringPenaltyToPenaltyType_loop_from:
  "k \<le> length penalty \<Longrightarrow> length penalties = length penalty \<Longrightarrow>
   for_loop (stringPenaltyToPenaltyType_body penalty) [k..<length penalty] penalties =
     (case find (\<lambda>s. s \<notin> set supported_names) (drop k penalty) of
        Some s \<Rightarrow> Inl (unknown_penalty s)
      | None \<Rightarrow> Inr (take k penalties @ map kind_of_name (drop k penalty)))"
proof (induction "length penalty - k" arbitrary: k penalties)
  case 0
  then show ?case by simp
next
  case (Suc m)
  then have k: "k < length penalty" by simp
  have idx: "[k..<length penalty] = k # [Suc k..<length penalty]"
    using k by (simp add: upt_conv_Cons)
  have dr: "drop k penalty = penalty ! k # drop (Suc k) penalty"
    using k by (simp add: Cons_nth_drop_Suc)
  show ?case
  proof (cases "penalty ! k \<in> set supported_names")
    case True
    have "for_loop (stringPenaltyToPenaltyType_body penalty) [Suc k..<length penalty]
            (penalties[k := kind_of_name (penalty ! k)]) =
          (case find (\<lambda>s. s \<notin> set supported_names) (drop (Suc k) penalty) of
             Some s \<Rightarrow> Inl (unknown_penalty s)
           | None \<Rightarrow> Inr (take (Suc k) (penalties[k := kind_of_name (penalty ! k)]) @
                          map kind_of_name (drop (Suc k) penalty)))"
      using Suc.hyps(1)[of "Suc k" "penalties[k := kind_of_name (penalty ! k)]"]
        Suc.hyps(2) Suc.prems k
      by simp
    moreover have "take (Suc k) (penalties[k := kind_of_name (penalty ! k)]) =
                   take k penalties @ [kind_of_name (penalty ! k)]"
      using k Suc.prems by (simp add: take_Suc_conv_app_nth)
    ultimately show ?thesis
      using True
      by (simp add: idx dr stringPenaltyToPenaltyType_body_supported split: option.splits)
  next
    case False
    then show ?thesis
      by (simp add: idx dr stringPenaltyToPenaltyType_body_unsupported)
  qed
qed

lemma stringPenaltyToPenaltyType_find:
  "stringPenaltyToPenaltyType penalty =
     (case find (\<lambda>s. s \<notin> set supported_names) penalty of
        Some s \<Rightarrow> Inl (unknown_penalty s)
      | None \<Rightarrow> Inr (map kind_of_name penalty))"
  using stringPenaltyToPenaltyType_loop_from[of 0 penalty "replicate (length penalty) none"]
  by (simp add: stringPenaltyToPenaltyType_def split: option.splits)

lemma find_first_unsupported:
  "set front \<subseteq> set supported_names \<Longrightarrow> s \<notin> set supported_names \<Longrightarrow>
   find (\<lambda>s. s \<notin> set supported_names) (front @ s # rest) = Some s"
  by (induction front) auto

text \<open>
  Claim C6, as stated, fails: the names \<open>ridge\<close>, \<open>elastic_net\<close> and \<open>capped_l1\<close> are
  valid kinds of the specification, and the translation rejects them; it accepts
  \<open>cappedL1\<close>, which the specification does not list.
\<close>

theorem stringPenaltyToPenaltyType_rejects_ridge:
  "''ridge'' \<in> set spec_valid_kinds \<and>
   stringPenaltyToPenaltyType [''ridge''] = Inl (unknown_penalty ''ridge'') \<and>
   ''cappedL1'' \<notin> set spec_valid_kinds \<and>
   stringPenaltyToPenaltyType [''cappedL1''] = Inr [cappedL1]"
  by (simp add: stringPenaltyToPenaltyType_def stringPenaltyToPenaltyType_body_def
      unknown_penalty_def spec_valid_kinds_def)

text \<open>
  Claim C6, amended. The translation succeeds exactly when every entry is one of the
  names \<open>none\<close>, \<open>cappedL1\<close>, \<open>lasso\<close>, \<open>lsp\<close>, \<open>mcp\<close>, \<open>scad\<close>; it then maps each name
  to its kind, in order. It fails as soon as an entry is not one of these names: the
  error names the first such entry, whatever follows it.
\<close>

theorem stringPenaltyToPenaltyType_supported:
  "((\<exists>kinds. stringPenaltyToPenaltyType penalty = Inr kinds) \<longleftrightarrow>
      set penalty \<subseteq> set supported_names) \<and>
   (set penalty \<subseteq> set supported_names \<longrightarrow>
      stringPenaltyToPenaltyType penalty = Inr (map kind_of_name penalty)) \<and>
   (set front \<subseteq> set supported_names \<and> s \<notin> set supported_names \<longrightarrow>
      stringPenaltyToPenaltyType (front @ s # rest) = Inl (unknown_penalty s))"
proof (intro conjI impI)
  show "(\<exists>kinds. stringPenaltyToPenaltyType penalty = Inr kinds) \<longleftrightarrow>
        set penalty \<subseteq> set supported_names"
  proof (cases "find (\<lambda>s. s \<notin> set supported_names) penalty")
    case None
    then have "set penalty \<subseteq> set supported_names"
      by (auto simp: find_None_iff)
    moreover have "stringPenaltyToPenaltyType penalty = Inr (map kind_of_name penalty)"
      using None by (simp add: stringPenaltyToPenaltyType_find)
    ultimately show ?thesis by simp
  next
    case (Some s)
    then have "s \<in> set penalty" and "s \<notin> set supported_names"
      by (auto simp: find_Some_iff)
    then have "\<not> set penalty \<subseteq> set supported_names"
      by blast
    moreover have "stringPenaltyToPenaltyType penalty = Inl (unknown_penalty s)"
      using Some by (simp add: stringPenaltyToPenaltyType_find)
    ultimately show ?thesis by simp
  qed
next
  assume "set penalty \<subseteq> set supported_names"
  then have "find (\<lambda>s. s \<notin> set supported_names) penalty = None"
    by (auto simp: find_None_iff)
  then show "stringPenaltyToPenaltyType penalty = Inr (map kind_of_name penalty)"
    by (simp add: stringPenaltyToPenaltyType_find)
next
  assume "set front \<subseteq> set supported_names \<and> s \<notin> set supported_names"
  then show "stringPenaltyToPenaltyType (front @ s # rest) = Inl (unknown_penalty s)"
    by (simp add: stringPenaltyToPenaltyType_find find_first_unsupported)
qed

theorem stringPenaltyToPenaltyType_supported_witness:
  "set [''lasso'', ''mcp''] \<subseteq> set supported_names \<and>
   stringPenaltyToPenaltyType [''lasso'', ''mcp''] = Inr [lasso, mcp] \<and>
   ''ridge'' \<notin> set supported_names \<and>
   stringPenaltyToPenaltyType ([''lasso''] @ ''ridge'' # [''elastic_net'', ''scad'']) =
     Inl (unknown_penalty ''ridge'')"
  using stringPenaltyToPenaltyType_supported
    [where penalty = "[''lasso'', ''mcp'']" and front = "[''lasso'']" and s = "''ridge''"
       and rest = "[''elastic_net'', ''scad'']"]
  by (simp add: supported_names_def kind_of_name_def)

section \<open>The value of the MCP penalty\<close>




section \<open>The ridge penalties\<close>










lemma penaltyRidgeGlmnet_lambda_i_constant:
  assumes "p < n" "p < length ws"
  shows "penaltyRidgeGlmnet_lambda_i
           \<lparr>glmnet_alpha = replicate n al, glmnet_lambda = replicate n lam,
            glmnet_weights = ws\<rparr> p =
         Inr (dmul (dmul (dsub (Fin 1) al) lam) (ws ! p))"
  using assms by (simp add: penaltyRidgeGlmnet_lambda_i_def rowvec_at_def)

text \<open>
  Claim C7. For every parameter vector \<open>xs\<close>, every weight vector \<open>ws\<close> of the same
  length, every \<open>lambda\<close> and every finite \<open>alpha\<close> (in \<open>[0, 1]\<close> or not): with the
  per-parameter tuning vectors constant, \<open>alpha_j = alpha\<close> and \<open>lambda_j = lambda\<close> for
  all \<open>j\<close>, and the same weights, \<open>penaltyRidgeGlmnet\<close> returns the same value and the
  same gradients as \<open>penaltyRidge\<close>.
\<close>

theorem penaltyRidgeGlmnet_constant_tuning:
  assumes "length ws = length xs"
  shows "penaltyRidgeGlmnet_getValue xs labels
           \<lparr>glmnet_alpha = replicate (length xs) (Fin al),
            glmnet_lambda = replicate (length xs) lam, glmnet_weights = ws\<rparr> =
         penaltyRidge_getValue xs labels
           \<lparr>enet_alpha = Fin al, enet_lambda = lam, enet_weights = ws\<rparr> \<and>
         penaltyRidgeGlmnet_getGradients xs labels
           \<lparr>glmnet_alpha = replicate (length xs) (Fin al),
            glmnet_lambda = replicate (length xs) lam, glmnet_weights = ws\<rparr> =
         penaltyRidge_getGradients xs labels
           \<lparr>enet_alpha = Fin al, enet_lambda = lam, enet_weights = ws\<rparr>"
proof (cases "xs = []")
  case True
  then show ?thesis
    by (simp add: penaltyRidgeGlmnet_getValue_def penaltyRidge_getValue_def
        penaltyRidgeGlmnet_getGradients_def penaltyRidge_getGradients_def dsum_def)
next
  case False
  then have n: "0 < length xs" by simp
  have early: "deq (dsum (replicate (length xs) (Fin al))) (Fin (real (length xs))) =
               deq (Fin al) (Fin 1)"
    using n by (simp add: dsum_replicate)
  have v: "for_loop (penaltyRidgeGlmnet_getValue_body xs
             \<lparr>glmnet_alpha = replicate (length xs) (Fin al),
              glmnet_lambda = replicate (length xs) lam, glmnet_weights = ws\<rparr>)
             [0..<length xs] s =
           for_loop (penaltyRidge_getValue_body xs
             \<lparr>enet_alpha = Fin al, enet_lambda = lam, enet_weights = ws\<rparr>)
             [0..<length xs] s" for s
    by (rule for_loop_cong_on)
      (use assms in \<open>simp add: penaltyRidgeGlmnet_getValue_body_def
         penaltyRidge_getValue_body_def penaltyRidgeGlmnet_lambda_i_constant rowvec_at_def\<close>)
  have g: "for_loop (penaltyRidgeGlmnet_getGradients_body xs
             \<lparr>glmnet_alpha = replicate (length xs) (Fin al),
              glmnet_lambda = replicate (length xs) lam, glmnet_weights = ws\<rparr>)
             [0..<length xs] s =
           for_loop (penaltyRidge_getGradients_body xs
             \<lparr>enet_alpha = Fin al, enet_lambda = lam, enet_weights = ws\<rparr>)
             [0..<length xs] s" for s
    by (rule for_loop_cong_on)
      (use assms in \<open>simp add: penaltyRidgeGlmnet_getGradients_body_def
         penaltyRidge_getGradients_body_def penaltyRidgeGlmnet_lambda_i_constant
         rowvec_at_def\<close>)
  show ?thesis
    by (simp add: penaltyRidgeGlmnet_getValue_def penaltyRidge_getValue_def
        penaltyRidgeGlmnet_getGradients_def penaltyRidge_getGradients_def early v g Let_def)
qed

theorem penaltyRidgeGlmnet_constant_tuning_witness:
  "length [Fin 1, Fin 1] = length [Fin 1, Fin 2] \<and>
   penaltyRidgeGlmnet_getValue [Fin 1, Fin 2] []
     \<lparr>glmnet_alpha = replicate 2 (Fin (1 / 2)), glmnet_lambda = replicate 2 (Fin 1),
      glmnet_weights = [Fin 1, Fin 1]\<rparr> = Inr (Fin (5 / 2)) \<and>
   penaltyRidge_getValue [Fin 1, Fin 2] []
     \<lparr>enet_alpha = Fin (1 / 2), enet_lambda = Fin 1, enet_weights = [Fin 1, Fin 1]\<rparr> =
     Inr (Fin (5 / 2)) \<and>
   penaltyRidgeGlmnet_getGradients [Fin 1, Fin 2] []
     \<lparr>glmnet_alpha = replicate 2 (Fin (1 / 2)), glmnet_lambda = replicate 2 (Fin 1),
      glmnet_weights = [Fin 1, Fin 1]\<rparr> = Inr [Fin 1, Fin 2] \<and>
   penaltyRidge_getGradients [Fin 1, Fin 2] []
     \<lparr>enet_alpha = Fin (1 / 2), enet_lambda = Fin 1, enet_weights = [Fin 1, Fin 1]\<rparr> =
     Inr [Fin 1, Fin 2]"
  using penaltyRidgeGlmnet_constant_tuning
    [where ws = "[Fin 1, Fin 1]" and xs = "[Fin 1, Fin 2]" and labels = "[]"
       and al = "1 / 2" and lam = "Fin 1"]
  by (simp add: penaltyRidge_getValue_def penaltyRidge_getValue_body_def
      penaltyRidge_getGradients_def penaltyRidge_getGradients_body_def rowvec_at_def dsub_def
      numeral_2_eq_2)

section \<open>Parameters of weight zero\<close>









section \<open>The coordinate step of the MCP penalty\<close>

subsection \<open>Reading the inputs\<close>

lemma getZ_read_ok:
  assumes "getZ_inputs_ok j x g d H tp"
  shows "getZ_read j x g d H tp =
         Inr (mcp_weights tp ! j, x ! j, d ! j, dsum (map2 dmul (H ! j) d), H ! j ! j, g ! j)"
proof -
  have rows: "list_all (\<lambda>row. length row = length d) H" and j: "j < length H" "j < length d"
    using assms by (simp_all add: getZ_inputs_ok_def)
  then have "length (H ! j) = length d"
    by (simp add: list_all_length)
  then show ?thesis
    using assms
    by (simp add: getZ_read_def getZ_inputs_ok_def rowvec_at_def rowvec_col_def
        mat_times_trans_def mat_row_col_def)
qed

lemma getZ_step_penalised:
  assumes "\<not> deq w (Fin 0)"
  shows "getZ_step w lam_all th x d Hd H g =
         (fst (getZ_posdef H th),
          getZ_solve x d g Hd (snd (getZ_posdef H th)) (dmul w lam_all) th)"
  using assms by (simp add: getZ_step_def Let_def)




subsection \<open>The choice among the candidates\<close>

lemma getZ_select_error_iff:
  "getZ_select [a, b, c] fit = Inl (Failure ''Found no minimum'') \<longleftrightarrow>
     \<not> is_finite a \<and> \<not> is_finite b \<and> \<not> is_finite c"
  by (simp add: getZ_select_def getZ_loop_body_def upt_3 Let_def)

lemma getZ_select_member:
  "is_finite a \<or> is_finite b \<or> is_finite c \<Longrightarrow>
   \<exists>r. getZ_select [a, b, c] fit = Inr r \<and> r \<in> set [a, b, c] \<and> is_finite r"
  by (cases a; cases b; cases c)
     (simp_all add: getZ_select_def getZ_loop_body_def upt_3 Let_def)


lemma getZ_solve_error_iff:
  "getZ_solve x d g Hd H lam th = Inl (Failure ''Found no minimum'') \<longleftrightarrow>
     (\<forall>c\<in>set (getZ_candidates x d g Hd H lam th). \<not> is_finite c)"
  by (simp add: getZ_solve_def getZ_candidates_def getZ_select_error_iff)

lemma getZ_solve_member:
  assumes "\<exists>c\<in>set (getZ_candidates x d g Hd H lam th). is_finite c"
  shows "\<exists>r. getZ_solve x d g Hd H lam th = Inr r \<and>
             r \<in> set (getZ_candidates x d g Hd H lam th) \<and> is_finite r"
  using assms getZ_select_member
  by (simp add: getZ_solve_def getZ_candidates_def)

text \<open>
  Claim C4. On inputs that fit together and for a parameter whose weight is not 0,
  \<open>getZ\<close> fails with \<open>Found no minimum\<close> if and only if none of its three candidates
  is finite; and whenever a candidate is finite, it returns one of the finite
  candidates. This holds for all inputs, finite or not.
\<close>

theorem getZ_no_minimum_iff:
  assumes "getZ_inputs_ok j x g d H tp" and "\<not> deq (mcp_weights tp ! j) (Fin 0)"
  shows "(snd (getZ j x g d H tp) = Inl (Failure ''Found no minimum'') \<longleftrightarrow>
            (\<forall>c\<in>set (getZ_candidates_of j x g d H tp). \<not> is_finite c)) \<and>
         ((\<exists>c\<in>set (getZ_candidates_of j x g d H tp). is_finite c) \<longrightarrow>
            (\<exists>r. snd (getZ j x g d H tp) = Inr r \<and>
                 r \<in> set (getZ_candidates_of j x g d H tp) \<and> is_finite r))"
proof -
  have "snd (getZ j x g d H tp) =
        getZ_solve (x ! j) (d ! j) (g ! j) (dsum (map2 dmul (H ! j) d))
          (snd (getZ_posdef (H ! j ! j) (mcp_theta tp)))
          (dmul (mcp_weights tp ! j) (mcp_lambda tp)) (mcp_theta tp)"
    using assms by (simp add: getZ_def getZ_read_ok getZ_step_penalised)
  then show ?thesis
    using getZ_solve_error_iff getZ_solve_member
    by (simp add: getZ_candidates_of_def)
qed

theorem getZ_no_minimum_iff_witness:
  "getZ_inputs_ok 0 [NaN] [Fin 0] [Fin 0] [[Fin 1]]
     \<lparr>mcp_weights = [Fin 1], mcp_lambda = Fin 1, mcp_theta = Fin 3\<rparr> \<and>
   \<not> deq (Fin 1) (Fin 0) \<and>
   getZ_candidates_of 0 [NaN] [Fin 0] [Fin 0] [[Fin 1]]
     \<lparr>mcp_weights = [Fin 1], mcp_lambda = Fin 1, mcp_theta = Fin 3\<rparr> = [NaN, NaN, NaN] \<and>
   snd (getZ 0 [NaN] [Fin 0] [Fin 0] [[Fin 1]]
     \<lparr>mcp_weights = [Fin 1], mcp_lambda = Fin 1, mcp_theta = Fin 3\<rparr>) =
     Inl (Failure ''Found no minimum'')"
  using getZ_no_minimum_iff
    [where j = 0 and x = "[NaN]" and g = "[Fin 0]" and d = "[Fin 0]" and H = "[[Fin 1]]"
       and tp = "\<lparr>mcp_weights = [Fin 1], mcp_lambda = Fin 1, mcp_theta = Fin 3\<rparr>"]
  by (simp add: getZ_inputs_ok_def getZ_candidates_of_def getZ_candidates_def getZ_z0_def
      getZ_z1_def getZ_z2_def getZ_posdef_def dsum_def dmax_def dmin_def dsub_def dge_def
      Let_def)

subsection \<open>The candidates on finite inputs\<close>







subsection \<open>The pieces of the objective and their stationary points\<close>








subsection \<open>The step that is returned\<close>





end
